theory Spec2Isabelle
  imports Complex_Main
begin

section \<open>Python values\<close>

text \<open>
  A Python \<open>str\<close> is a sequence of Unicode code points: \<open>len\<close>, slicing and iteration
  count code points. It is modelled as a list of naturals; \<open>lit\<close> embeds a literal of
  the source.
\<close>

type_synonym pystr = "nat list"

definition lit :: "string \<Rightarrow> pystr" where
  "lit s = map of_char s"

text \<open>
  What \<open>json.load\<close> returns: \<open>None\<close>, \<open>bool\<close>, \<open>int\<close>, \<open>float\<close>, \<open>str\<close>, \<open>list\<close>
  or \<open>dict\<close>. A dict is the list of its items in insertion order (the keys of a parsed
  dict are distinct; a lookup takes the first binding). A float is carried as the real it
  denotes: the functions below only test it for zero or reject it.
\<close>

datatype json =
    JNull
  | JBool bool
  | JInt int
  | JFloat real
  | JStr pystr
  | JList "json list"
  | JDict "(pystr \<times> json) list"

text \<open>
  The exceptions the two scripts can meet. The argument is \<open>str(e)\<close> where the source
  or an external library supplies it; \<open>KeyError\<close> carries the missing key. The text the
  interpreter attaches to its own errors is a parameter (\<open>interp_text\<close> below).
\<close>

datatype exn =
    FileNotFoundError pystr
  | JSONDecodeError pystr
  | CLIConnectionError pystr
  | KeyError pystr
  | AttributeError
  | TypeError
  | IndexError
  | ValueError
  | OSError pystr
  | KeyboardInterrupt
  | OtherException pystr
  | OtherBaseException pystr

text \<open>\<open>isinstance(e, Exception)\<close>: what an \<open>except Exception\<close> clause catches.\<close>

fun is_Exception :: "exn \<Rightarrow> bool" where
  "is_Exception KeyboardInterrupt = False"
| "is_Exception (OtherBaseException m) = False"
| "is_Exception e = True"

definition and_then :: "exn + 'a \<Rightarrow> ('a \<Rightarrow> exn + 'b) \<Rightarrow> exn + 'b" where
  "and_then r f = (case r of Inl e \<Rightarrow> Inl e | Inr x \<Rightarrow> f x)"

text \<open>
  Library behaviour that is not in the repository: the Unicode character tables behind
  \<open>str.isalnum\<close> and \<open>str.isspace\<close> (on one code point), \<open>str()\<close> of a float, list or
  dict, the message text of interpreter-raised errors, the text \<open>traceback.print_exc\<close>
  prints, the JSON parser, and \<open>pathlib\<close> on the path the PDF script is given
  (\<open>str(Path(s))\<close>, and \<open>str(Path(s).parent / name)\<close> and \<open>Path(s).stem\<close>).
\<close>

record pylib =
  isalnum :: "nat \<Rightarrow> bool"
  isspace :: "nat \<Rightarrow> bool"
  str_other :: "json \<Rightarrow> pystr"
  interp_text :: "exn \<Rightarrow> pystr"
  traceback_text :: "exn \<Rightarrow> pystr"
  json_loads :: "pystr \<Rightarrow> exn + json"
  path_str :: "pystr \<Rightarrow> pystr"
  path_sibling :: "pystr \<Rightarrow> pystr \<Rightarrow> pystr"
  path_stem :: "pystr \<Rightarrow> pystr"

subsection \<open>Built-in operations on parsed JSON\<close>

text \<open>\<open>bool(v)\<close>, as \<open>if not v\<close> and \<open>a or b\<close> test it.\<close>

fun py_truth :: "json \<Rightarrow> bool" where
  "py_truth JNull = False"
| "py_truth (JBool b) = b"
| "py_truth (JInt i) = (i \<noteq> 0)"
| "py_truth (JFloat r) = (r \<noteq> 0)"
| "py_truth (JStr s) = (s \<noteq> [])"
| "py_truth (JList xs) = (xs \<noteq> [])"
| "py_truth (JDict kvs) = (kvs \<noteq> [])"

text \<open>\<open>d.get(k, default)\<close>: only a dict has the method.\<close>

fun py_get :: "json \<Rightarrow> pystr \<Rightarrow> json \<Rightarrow> exn + json" where
  "py_get (JDict kvs) k dflt = Inr (case map_of kvs k of None \<Rightarrow> dflt | Some v \<Rightarrow> v)"
| "py_get v k dflt = Inl AttributeError"

text \<open>\<open>d[k]\<close> with a string key: \<open>KeyError\<close> on a dict without the key, \<open>TypeError\<close> on
  every other JSON value (a list or string wants an integer index, the rest are not
  subscriptable).\<close>

fun py_subscript :: "json \<Rightarrow> pystr \<Rightarrow> exn + json" where
  "py_subscript (JDict kvs) k = (case map_of kvs k of None \<Rightarrow> Inl (KeyError k) | Some v \<Rightarrow> Inr v)"
| "py_subscript v k = Inl TypeError"

fun py_len :: "json \<Rightarrow> exn + nat" where
  "py_len (JStr s) = Inr (length s)"
| "py_len (JList xs) = Inr (length xs)"
| "py_len (JDict kvs) = Inr (length kvs)"
| "py_len v = Inl TypeError"

text \<open>Iteration: a string yields its characters as one-character strings, a dict its
  keys.\<close>

fun py_iter :: "json \<Rightarrow> exn + json list" where
  "py_iter (JStr s) = Inr (map (\<lambda>c. JStr [c]) s)"
| "py_iter (JList xs) = Inr xs"
| "py_iter (JDict kvs) = Inr (map (\<lambda>kv. JStr (fst kv)) kvs)"
| "py_iter v = Inl TypeError"

text \<open>Decimal digits of \<open>str(n)\<close>; \<open>48\<close> is the code point of \<open>0\<close>, \<open>45\<close> of the minus
  sign.\<close>

fun str_nat :: "nat \<Rightarrow> pystr" where
  "str_nat n = (if n < 10 then [48 + n] else str_nat (n div 10) @ [48 + n mod 10])"

declare str_nat.simps [simp del]

definition str_int :: "int \<Rightarrow> pystr" where
  "str_int i = (if i < 0 then 45 # str_nat (nat (- i)) else str_nat (nat i))"

text \<open>\<open>str(v)\<close>, as an f-string field without a format specification renders it.\<close>

fun py_str :: "pylib \<Rightarrow> json \<Rightarrow> pystr" where
  "py_str B (JStr s) = s"
| "py_str B (JInt i) = str_int i"
| "py_str B (JBool b) = (if b then lit ''True'' else lit ''False'')"
| "py_str B JNull = lit ''None''"
| "py_str B v = str_other B v"

text \<open>\<open>str(e)\<close>. For a \<open>KeyError\<close> it is the \<open>repr\<close> of the key, which for the keys
  of the source (plain identifiers) is the key between single quotes (code point 39).\<close>

fun str_exn :: "pylib \<Rightarrow> exn \<Rightarrow> pystr" where
  "str_exn B (FileNotFoundError m) = m"
| "str_exn B (JSONDecodeError m) = m"
| "str_exn B (CLIConnectionError m) = m"
| "str_exn B (OSError m) = m"
| "str_exn B (OtherException m) = m"
| "str_exn B (OtherBaseException m) = m"
| "str_exn B (KeyError k) = 39 # k @ [39]"
| "str_exn B KeyboardInterrupt = []"
| "str_exn B e = interp_text B e"

subsection \<open>Standard output, standard error and the way a run ends\<close>

text \<open>The output of a run is the list of its \<open>print\<close> calls in order, each with its
  stream and its text (the newline \<open>print\<close> appends is left out).\<close>

datatype stream = Stdout | Stderr

type_synonym printed = "(stream \<times> pystr) list"

text \<open>
  A script ends by \<open>sys.exit(n)\<close>, by returning from its entry point, or with an
  exception nobody catches; \<open>Hangs\<close> is a run that waits for ever. The interpreter turns
  the first two into the exit statuses \<open>n\<close> and \<open>0\<close>, and an uncaught \<open>Exception\<close> into a
  traceback on standard error and the status \<open>1\<close>.
\<close>

datatype outcome = Exit int | Returned | Uncaught exn | Hangs

fun exit_status :: "outcome \<Rightarrow> int option" where
  "exit_status (Exit n) = Some n"
| "exit_status Returned = Some 0"
| "exit_status (Uncaught e) = (if is_Exception e then Some 1 else None)"
| "exit_status Hangs = None"

text \<open>The lines of a run on one stream.\<close>

definition on_stream :: "stream \<Rightarrow> printed \<Rightarrow> pystr list" where
  "on_stream st out = map snd (filter (\<lambda>l. fst l = st) out)"

section \<open>The agent: \<open>src/aiStudent/agent.py\<close>\<close>

subsection \<open>Files\<close>

text \<open>
  A resolved absolute path is the list of its components; \<open>p / "todo"\<close> appends one. The
  file system maps a path to a directory or to a text file with its content. POSIX
  rendering of a path.
\<close>

type_synonym path = "pystr list"

datatype node = Dir | File pystr

type_synonym filesystem = "path \<Rightarrow> node option"

definition str_path :: "path \<Rightarrow> pystr" where
  "str_path p = (if p = [] then lit ''/'' else concat (map (\<lambda>c. lit ''/'' @ c) p))"

definition path_exists :: "filesystem \<Rightarrow> path \<Rightarrow> bool" where
  "path_exists fs p = (fs p \<noteq> None)"

text \<open>\<open>with open(p, "r", encoding="utf-8") as f: json.load(f)\<close>. Opening for reading
  leaves the file system as it is; the new file system is returned all the same, so that
  the frame of the callers is a statement about them.\<close>

definition read_json :: "pylib \<Rightarrow> filesystem \<Rightarrow> path \<Rightarrow> (exn + json) \<times> filesystem" where
  "read_json B fs p =
     (case fs p of
        None \<Rightarrow> (Inl (FileNotFoundError (lit ''[Errno 2] No such file or directory: '' @ 39 # str_path p @ [39])), fs)
      | Some Dir \<Rightarrow> (Inl (OSError (lit ''[Errno 21] Is a directory: '' @ 39 # str_path p @ [39])), fs)
      | Some (File content) \<Rightarrow> (json_loads B content, fs))"

subsection \<open>\<open>load_course_data\<close>\<close>

definition load_course_data :: "pylib \<Rightarrow> filesystem \<Rightarrow> path \<Rightarrow> (exn + json \<times> json) \<times> filesystem" where
  "load_course_data B fs course_path =
     (let todo_dir = course_path @ [lit ''todo''];
          tasks_file = todo_dir @ [lit ''course_tasks.json''];
          info_file = todo_dir @ [lit ''course_information.json'']
      in if \<not> path_exists fs tasks_file
           then (Inl (FileNotFoundError (lit ''Tasks file not found: '' @ str_path tasks_file)), fs)
         else if \<not> path_exists fs info_file
           then (Inl (FileNotFoundError (lit ''Course info file not found: '' @ str_path info_file)), fs)
         else (case read_json B fs tasks_file of
                 (Inl e, fs1) \<Rightarrow> (Inl e, fs1)
               | (Inr tasks_data, fs1) \<Rightarrow>
                   (case read_json B fs1 info_file of
                      (Inl e, fs2) \<Rightarrow> (Inl e, fs2)
                    | (Inr course_info, fs2) \<Rightarrow> (Inr (tasks_data, course_info), fs2))))"

subsection \<open>\<open>construct_autonomous_instruction\<close>\<close>

text \<open>The comprehension \<open>[t for t in ... if t.get("status") == "pending"]\<close>: it raises at
  the first element that has no \<open>get\<close>.\<close>

fun pending_of :: "json list \<Rightarrow> exn + json list" where
  "pending_of [] = Inr []"
| "pending_of (t # ts) =
     and_then (py_get t (lit ''status'') JNull) (\<lambda>s.
     and_then (pending_of ts) (\<lambda>r.
     Inr (if s = JStr (lit ''pending'') then t # r else r)))"

text \<open>The f-string of the prompt, as a function of its three fields: the course name
  already rendered by \<open>str\<close>, and the two counts, which are rendered in decimal. The
  text before and after the sentence with the counts is named.\<close>

definition prompt_head :: "pystr \<Rightarrow> pystr" where
  "prompt_head course_name =
     lit ''I need you to autonomously complete all course tasks for ''
     @ course_name
     @ lit ''.\<newline>\<newline>You have access to:\<newline>- Course information and context\<newline>- Knowledge base materials in knowledge_base/ folder\<newline>- All task details in todo/course_tasks.json\<newline>\<newline>''"

definition prompt_tail :: pystr where
  "prompt_tail =
     lit ''\<newline>\<newline>Please begin working autonomously:\<newline>1. Review all tasks and decide on your approach\<newline>2. Start with the first task\<newline>3. Use the knowledge base as needed\<newline>4. Complete each task fully before moving to the next\<newline>5. Update task status in course_tasks.json as you progress\<newline>6. Save outputs to appropriate locations\<newline>\<newline>Work independently and make your own decisions. Begin now.''"

definition prompt_template :: "pystr \<Rightarrow> nat \<Rightarrow> nat \<Rightarrow> pystr" where
  "prompt_template course_name total_tasks n_pending =
     prompt_head course_name
     @ lit ''There are '' @ str_nat total_tasks
     @ lit '' total tasks, with '' @ str_nat n_pending
     @ lit '' currently pending.''
     @ prompt_tail"

definition construct_autonomous_instruction :: "pylib \<Rightarrow> json \<Rightarrow> json \<Rightarrow> exn + pystr" where
  "construct_autonomous_instruction B tasks_data course_info =
     and_then (py_get course_info (lit ''course_name'') (JStr (lit ''Unknown Course''))) (\<lambda>course_name.
     and_then (py_get tasks_data (lit ''tasks'') (JList [])) (\<lambda>ts.
     and_then (py_len ts) (\<lambda>total_tasks.
     and_then (py_get tasks_data (lit ''tasks'') (JList [])) (\<lambda>ts'.
     and_then (py_iter ts') (\<lambda>items.
     and_then (pending_of items) (\<lambda>pending_tasks.
     Inr (prompt_template (py_str B course_name) total_tasks (length pending_tasks))))))))"

subsection \<open>The external agent client\<close>

text \<open>
  The client is an opaque collaborator. One run of it is described by what the script
  observes: whether entering \<open>async with ClaudeSDKClient(...)\<close> raises, whether
  \<open>client.query\<close> raises, the messages \<open>receive_messages\<close> yields, and how that stream
  ends: it is exhausted and the client closes, an exception is raised in the block
  (a keyboard interrupt is one), or it blocks for ever. The options given to the client
  do not change what the script itself does and are not modelled.
\<close>

datatype block = TextBlock pystr | OtherBlock

datatype 'c msg = AssistantMessage "block list" | ResultMessage "'c option" | OtherMessage

datatype ending = Exhausted | Raises exn | Blocks

record 'c session =
  connect_raises :: "exn option"
  query_raises :: "exn option"
  messages :: "'c msg list"
  stream_end :: ending

text \<open>The cost figures are Python floats. Their arithmetic and the format \<open>.6f\<close> are
  parameters: \<open>0.0\<close>, \<open>+\<close>, truthiness and \<open>format(x, ".6f")\<close>.\<close>

record 'c floatops =
  fzero :: 'c
  fadd :: "'c \<Rightarrow> 'c \<Rightarrow> 'c"
  ftruth :: "'c \<Rightarrow> bool"
  fmt6 :: "'c \<Rightarrow> pystr"

subsection \<open>\<open>run_autonomous_agent\<close>\<close>

text \<open>The inner loop over the blocks of an assistant message.\<close>

fun show_blocks :: "block list \<Rightarrow> printed" where
  "show_blocks [] = []"
| "show_blocks (TextBlock text # bs) =
     (Stdout, lit ''Claude: '' @ (if length text > 200 then take 200 text @ lit ''...'' else text))
     # show_blocks bs"
| "show_blocks (OtherBlock # bs) = show_blocks bs"

text \<open>One iteration of \<open>async for msg in client.receive_messages()\<close>, on the state
  \<open>(total_cost, message_count, printed so far)\<close>.\<close>

fun handle_message :: "'c floatops \<Rightarrow> 'c msg \<Rightarrow> 'c \<times> nat \<times> printed \<Rightarrow> 'c \<times> nat \<times> printed" where
  "handle_message F (AssistantMessage bs) (total_cost, message_count, out) =
     (total_cost, message_count + 1, out @ show_blocks bs)"
| "handle_message F (ResultMessage None) (total_cost, message_count, out) =
     (total_cost, message_count + 1, out)"
| "handle_message F (ResultMessage (Some cost)) (total_cost, message_count, out) =
     (if ftruth F cost
      then (fadd F total_cost cost, message_count + 1,
            out @ [(Stdout, lit ''\<newline>[Cost for this response: $'' @ fmt6 F cost @ lit '']''),
                   (Stdout, lit ''[Cumulative total: $'' @ fmt6 F (fadd F total_cost cost) @ lit '']\<newline>'')])
      else (total_cost, message_count + 1, out))"
| "handle_message F OtherMessage (total_cost, message_count, out) =
     (total_cost, message_count + 1, out)"

text \<open>The \<open>except\<close> clauses of the first \<open>try\<close> (loading), in the order of the source.\<close>

fun load_handlers :: "pylib \<Rightarrow> exn \<Rightarrow> printed \<Rightarrow> outcome \<times> printed" where
  "load_handlers B (FileNotFoundError m) out =
     (Exit 1, out @ [(Stderr, lit ''Error: '' @ str_exn B (FileNotFoundError m))])"
| "load_handlers B (JSONDecodeError m) out =
     (Exit 1, out @ [(Stderr, lit ''Error parsing JSON: '' @ str_exn B (JSONDecodeError m))])"
| "load_handlers B e out = (Uncaught e, out)"

text \<open>The \<open>except\<close> clauses of the second \<open>try\<close> (the client session), in the order of
  the source: \<open>CLIConnectionError\<close>, \<open>KeyboardInterrupt\<close>, \<open>Exception\<close>.\<close>

fun session_handlers :: "pylib \<Rightarrow> 'c floatops \<Rightarrow> exn \<Rightarrow> 'c \<Rightarrow> printed \<Rightarrow> outcome \<times> printed" where
  "session_handlers B F (CLIConnectionError m) total_cost out =
     (Exit 1, out @ [(Stderr, lit ''\<newline>Connection error: '' @ str_exn B (CLIConnectionError m)),
                     (Stdout, lit ''Make sure Claude Code CLI is installed and ANTHROPIC_API_KEY is set.'')])"
| "session_handlers B F KeyboardInterrupt total_cost out =
     (Exit 0, out @ [(Stdout, lit ''\<newline>\<newline>Interrupted by user''),
                     (Stdout, lit ''Cost so far: $'' @ fmt6 F total_cost)])"
| "session_handlers B F e total_cost out =
     (if is_Exception e
      then (Exit 1, out @ [(Stderr, lit ''\<newline>Unexpected error: '' @ str_exn B e),
                           (Stderr, traceback_text B e)])
      else (Uncaught e, out))"

text \<open>The body of the second \<open>try\<close>, with its handlers.\<close>

definition agent_session ::
  "pylib \<Rightarrow> 'c floatops \<Rightarrow> 'c session \<Rightarrow> json \<Rightarrow> json \<Rightarrow> printed \<Rightarrow> outcome \<times> printed" where
  "agent_session B F S tasks_data course_info out =
     (case connect_raises S of
        Some e \<Rightarrow> session_handlers B F e (fzero F) out
      | None \<Rightarrow>
        (case construct_autonomous_instruction B tasks_data course_info of
           Inl e \<Rightarrow> session_handlers B F e (fzero F) out
         | Inr initial_prompt \<Rightarrow>
           (let out1 = out @ [(Stdout, lit ''\<newline>Sending initial instruction to Claude...'')] in
            case query_raises S of
              Some e \<Rightarrow> session_handlers B F e (fzero F) out1
            | None \<Rightarrow>
              (let out2 = out1 @ [(Stdout, lit ''\<newline>Claude is now working autonomously...''),
                                  (Stdout, lit ''(You can monitor progress below)\<newline>'')]
               in case fold (handle_message F) (messages S) (fzero F, 0, out2) of
                    (total_cost, message_count, out3) \<Rightarrow>
                      (case stream_end S of
                         Exhausted \<Rightarrow>
                           (Returned,
                            out3 @ [(Stdout, lit ''\<newline>'' @ replicate 60 61),
                                    (Stdout, lit ''Agent session completed''),
                                    (Stdout, lit ''Total messages processed: '' @ str_nat message_count),
                                    (Stdout, lit ''Total cost: $'' @ fmt6 F total_cost),
                                    (Stdout, replicate 60 61)])
                       | Raises e \<Rightarrow> session_handlers B F e total_cost out3
                       | Blocks \<Rightarrow> (Hangs, out3))))))"

text \<open>\<open>course_path\<close> is the resolved path. Code point 45 is \<open>-\<close>, 61 is \<open>=\<close>.\<close>

definition run_autonomous_agent ::
  "pylib \<Rightarrow> 'c floatops \<Rightarrow> filesystem \<Rightarrow> 'c session \<Rightarrow> path \<Rightarrow> outcome \<times> printed" where
  "run_autonomous_agent B F fs S course_path =
     (let knowledge_base_path = course_path @ [lit ''knowledge_base''];
          out0 = [(Stdout, lit ''AI Student - Autonomous Agent''),
                  (Stdout, lit ''Course directory: '' @ str_path course_path),
                  (Stdout, lit ''Knowledge base: '' @ str_path knowledge_base_path),
                  (Stdout, replicate 60 45)]
      in if \<not> path_exists fs course_path
         then (Uncaught (FileNotFoundError (lit ''Course directory not found: '' @ str_path course_path)), out0)
         else
          (let out1 = out0 @ [(Stdout, lit ''Loading course data...'')] in
           case fst (load_course_data B fs course_path) of
             Inl e \<Rightarrow> load_handlers B e out1
           | Inr (tasks_data, course_info) \<Rightarrow>
             (case and_then (py_get tasks_data (lit ''tasks'') (JList [])) py_len of
                Inl e \<Rightarrow> load_handlers B e out1
              | Inr n \<Rightarrow>
                (let out2 = out1 @ [(Stdout, lit ''Loaded '' @ str_nat n @ lit '' tasks'')] in
                 case py_get course_info (lit ''course_name'') (JStr (lit ''Unknown'')) of
                   Inl e \<Rightarrow> load_handlers B e out2
                 | Inr course_name \<Rightarrow>
                   agent_session B F S tasks_data course_info
                     (out2 @ [(Stdout, lit ''Course: '' @ py_str B course_name),
                              (Stdout, lit ''\<newline>Connecting to Claude SDK...''),
                              (Stdout, lit ''Starting autonomous task completion...''),
                              (Stdout, replicate 60 45)])))))"

text \<open>\<open>main\<close> of the agent; \<open>resolve\<close> is \<open>Path(s).resolve()\<close>, which depends on the
  working directory and the links of the file system.\<close>

definition agent_main ::
  "pylib \<Rightarrow> 'c floatops \<Rightarrow> (pystr \<Rightarrow> path) \<Rightarrow> filesystem \<Rightarrow> 'c session \<Rightarrow> pystr list \<Rightarrow> outcome \<times> printed" where
  "agent_main B F resolve fs S argv =
     (if length argv < 2
      then (Exit 1, [(Stderr, lit ''Usage: ai-student <course_directory>''),
                     (Stderr, lit ''Example: ai-student courseX'')])
      else run_autonomous_agent B F fs S (resolve (argv ! 1)))"

section \<open>The PDF script: \<open>scripts/pdf_restructure.py\<close>\<close>

subsection \<open>String methods\<close>

definition startswith :: "pystr \<Rightarrow> pystr \<Rightarrow> bool" where
  "startswith s p = (take (length p) s = p)"

definition endswith :: "pystr \<Rightarrow> pystr \<Rightarrow> bool" where
  "endswith s p = (length p \<le> length s \<and> drop (length s - length p) s = p)"

text \<open>\<open>s.strip()\<close>: leading and trailing whitespace removed.\<close>

definition strip :: "pylib \<Rightarrow> pystr \<Rightarrow> pystr" where
  "strip B s = rev (dropWhile (isspace B) (rev (dropWhile (isspace B) s)))"

text \<open>\<open>s.replace(' ', '_')\<close>; 32 is the space, 95 the underscore, 45 the hyphen.\<close>

definition replace_space :: "pystr \<Rightarrow> pystr" where
  "replace_space s = map (\<lambda>c. if c = 32 then 95 else c) s"

text \<open>\<open>s.isalnum()\<close>: the string is not empty and all its characters are alphanumeric.\<close>

definition str_isalnum :: "pylib \<Rightarrow> pystr \<Rightarrow> bool" where
  "str_isalnum B s = (s \<noteq> [] \<and> list_all (isalnum B) s)"

subsection \<open>\<open>get_chapter_boundaries\<close>\<close>

text \<open>
  The generative service is an opaque collaborator. One conversation with it is
  described by what each call does: \<open>configure\<close> and the model's construction,
  \<open>upload_file\<close>, \<open>generate_content\<close> with the reading of \<open>response.text\<close>, and
  \<open>delete_file\<close>; each may raise.
\<close>

record gemini =
  configure_raises :: "exn option"
  upload_raises :: "exn option"
  generate :: "exn + pystr"
  delete_raises :: "exn option"

text \<open>The removal of a Markdown fence around the response.\<close>

definition unfence :: "pylib \<Rightarrow> pystr \<Rightarrow> pystr" where
  "unfence B response_text =
     (let t1 = strip B response_text;
          t2 = (if startswith t1 (lit ''```json'') then drop 7 t1 else t1);
          t3 = (if startswith t2 (lit ''```'') then drop 3 t2 else t2);
          t4 = (if endswith t3 (lit ''```'') then take (length t3 - 3) t3 else t3)
      in strip B t4)"

definition get_chapter_boundaries :: "pylib \<Rightarrow> gemini \<Rightarrow> (exn + json) \<times> printed" where
  "get_chapter_boundaries B G =
     (case configure_raises G of
        Some e \<Rightarrow> (Inl e, [])
      | None \<Rightarrow>
        (let out1 = [(Stdout, lit ''Uploading PDF to Gemini...'')] in
         case upload_raises G of
           Some e \<Rightarrow> (Inl e, out1)
         | None \<Rightarrow>
           (let out2 = out1 @ [(Stdout, lit ''Analyzing PDF structure...'')] in
            case generate G of
              Inl e \<Rightarrow> (Inl e, out2)
            | Inr response_text \<Rightarrow>
              (case json_loads B (unfence B response_text) of
                 Inl e \<Rightarrow> (Inl e, out2)
               | Inr result \<Rightarrow>
                 (case delete_raises G of
                    Some e \<Rightarrow> (Inl e, out2)
                  | None \<Rightarrow> (py_get result (lit ''chapters'') (JList []), out2))))))"

subsection \<open>\<open>split_pdf\<close>\<close>

text \<open>\<open>v - 1\<close>: a \<open>bool\<close> is an \<open>int\<close>; a float stays a float (and is rejected by \<open>range\<close>
  afterwards); every other JSON value raises.\<close>

fun py_sub1 :: "json \<Rightarrow> exn + json" where
  "py_sub1 (JInt i) = Inr (JInt (i - 1))"
| "py_sub1 (JBool b) = Inr (JInt ((if b then 1 else 0) - 1))"
| "py_sub1 (JFloat r) = Inr (JFloat (r - 1))"
| "py_sub1 v = Inl TypeError"

text \<open>The integer an argument of \<open>range\<close> stands for.\<close>

fun py_index :: "json \<Rightarrow> exn + int" where
  "py_index (JInt i) = Inr i"
| "py_index (JBool b) = Inr (if b then 1 else 0)"
| "py_index v = Inl TypeError"

definition py_range :: "json \<Rightarrow> json \<Rightarrow> exn + int list" where
  "py_range a b = and_then (py_index a) (\<lambda>i. and_then (py_index b) (\<lambda>j. Inr [i..j - 1]))"

text \<open>\<open>reader.pages[i]\<close>: the page sequence of the PDF library indexes as a Python
  sequence does, a negative index counting from the end.\<close>

definition pages_getitem :: "'p list \<Rightarrow> int \<Rightarrow> exn + 'p" where
  "pages_getitem pages i =
     (if 0 \<le> i \<and> i < int (length pages) then Inr (pages ! nat i)
      else if i < 0 \<and> - int (length pages) \<le> i then Inr (pages ! nat (int (length pages) + i))
      else Inl IndexError)"

text \<open>The loop \<open>for page_num in range(...): writer.add_page(reader.pages[page_num])\<close>;
  the writer is the list of the pages added so far.\<close>

fun add_pages :: "'p list \<Rightarrow> int list \<Rightarrow> 'p list \<Rightarrow> exn + 'p list" where
  "add_pages pages [] writer = Inr writer"
| "add_pages pages (page_num # rest) writer =
     and_then (pages_getitem pages page_num) (\<lambda>page. add_pages pages rest (writer @ [page]))"

text \<open>The generator \<open>c for c in title if c.isalnum() or c in (' ', '-', '_')\<close>, on the
  elements the title yields: an element that is not a string has no \<open>isalnum\<close>.\<close>

fun keep_chars :: "pylib \<Rightarrow> json list \<Rightarrow> exn + pystr list" where
  "keep_chars B [] = Inr []"
| "keep_chars B (JStr c # cs) =
     and_then (keep_chars B cs) (\<lambda>r.
     Inr (if str_isalnum B c \<or> c = [32] \<or> c = [45] \<or> c = [95] then c # r else r))"
| "keep_chars B (v # cs) = Inl AttributeError"

definition safe_title_of :: "pylib \<Rightarrow> json \<Rightarrow> exn + pystr" where
  "safe_title_of B title =
     and_then (py_iter title) (\<lambda>cs.
     and_then (keep_chars B cs) (\<lambda>kept.
     Inr (take 50 (replace_space (strip B (concat kept))))))"

text \<open>The format specification \<open>02d\<close>: decimal, zero-padded to a width of at least two,
  the sign counting for the width. It raises \<open>ValueError\<close> on a string or a float and
  \<open>TypeError\<close> on \<open>None\<close>, a list or a dict.\<close>

definition zero_pad2 :: "int \<Rightarrow> pystr" where
  "zero_pad2 i =
     (if i < 0 then 45 # str_nat (nat (- i))
      else if i < 10 then 48 # str_nat (nat i)
      else str_nat (nat i))"

fun format_02d :: "json \<Rightarrow> exn + pystr" where
  "format_02d (JInt i) = Inr (zero_pad2 i)"
| "format_02d (JBool b) = Inr (zero_pad2 (if b then 1 else 0))"
| "format_02d (JStr s) = Inl ValueError"
| "format_02d (JFloat r) = Inl ValueError"
| "format_02d v = Inl TypeError"

text \<open>The body of the loop over the chapters, up to the opening of the output file: the
  name of the file, the pages the writer holds, and the line printed after the write.\<close>

definition chapter_file :: "pylib \<Rightarrow> 'p list \<Rightarrow> json \<Rightarrow> exn + (pystr \<times> 'p list \<times> pystr)" where
  "chapter_file B pages chapter =
     and_then (py_subscript chapter (lit ''start_page'')) (\<lambda>sp.
     and_then (py_sub1 sp) (\<lambda>start_page.
     and_then (py_subscript chapter (lit ''end_page'')) (\<lambda>end_page.
     and_then (py_range start_page end_page) (\<lambda>page_nums.
     and_then (add_pages pages page_nums []) (\<lambda>writer.
     and_then (py_subscript chapter (lit ''chapter_title'')) (\<lambda>title.
     and_then (safe_title_of B title) (\<lambda>safe_title.
     and_then (py_subscript chapter (lit ''chapter_number'')) (\<lambda>chapter_number.
     and_then (format_02d chapter_number) (\<lambda>nn.
     (let output_filename = lit ''Chapter_'' @ nn @ lit ''_'' @ safe_title @ lit ''.pdf''
      in Inr (output_filename, writer,
              lit ''  Created: '' @ output_filename @ lit '' (pages '' @ py_str B sp
              @ lit ''-'' @ py_str B end_page @ lit '')'')))))))))))"

text \<open>
  The state of the loop: the files written into the output directory, in the order of
  the writes (a name and the pages of the document written under it), and what was
  printed. Opening and writing an output file is taken to succeed.
\<close>

fun split_loop ::
  "pylib \<Rightarrow> 'p list \<Rightarrow> json list \<Rightarrow> (pystr \<times> 'p list) list \<times> printed
     \<Rightarrow> exn option \<times> (pystr \<times> 'p list) list \<times> printed" where
  "split_loop B pages [] (written, out) = (None, written, out)"
| "split_loop B pages (chapter # rest) (written, out) =
     (case chapter_file B pages chapter of
        Inl e \<Rightarrow> (Some e, written, out)
      | Inr (output_filename, writer, line) \<Rightarrow>
          split_loop B pages rest (written @ [(output_filename, writer)], out @ [(Stdout, line)]))"

text \<open>\<open>reader\<close> is what \<open>PdfReader(pdf_path)\<close> does: it raises or gives the pages of the
  document. The result is the exception that ends the function, if any, with the files
  written and the lines printed until then.\<close>

definition split_pdf ::
  "pylib \<Rightarrow> exn + 'p list \<Rightarrow> json \<Rightarrow> exn option \<times> (pystr \<times> 'p list) list \<times> printed" where
  "split_pdf B reader chapters =
     (case reader of
        Inl e \<Rightarrow> (Some e, [], [])
      | Inr pages \<Rightarrow>
        (case py_len chapters of
           Inl e \<Rightarrow> (Some e, [], [])
         | Inr n \<Rightarrow>
           (let out = [(Stdout, lit ''\<newline>Splitting PDF into '' @ str_nat n @ lit '' chapters...'')] in
            case py_iter chapters of
              Inl e \<Rightarrow> (Some e, [], out)
            | Inr chs \<Rightarrow> split_loop B pages chs ([], out))))"


subsection \<open>\<open>main\<close> of the PDF script\<close>

text \<open>The parsed command line, and what the script finds around it: whether the PDF
  exists, the environment variable \<open>GEMINI_API_KEY\<close>, the conversation with the service
  and what the PDF reader does. Creating the output directory is taken to succeed.\<close>

record args =
  pdf_file :: pystr
  output_dir :: "pystr option"
  api_key :: "pystr option"

record 'p pdf_world =
  pdf_exists :: bool
  getenv_key :: "pystr option"
  service :: gemini
  reader :: "exn + 'p list"

text \<open>\<open>a or b\<close> on optional strings: \<open>None\<close> and the empty string are false.\<close>

fun py_or :: "pystr option \<Rightarrow> pystr option \<Rightarrow> pystr option" where
  "py_or None b = b"
| "py_or (Some s) b = (if s = [] then b else Some s)"

fun opt_truth :: "pystr option \<Rightarrow> bool" where
  "opt_truth None = False"
| "opt_truth (Some s) = (s \<noteq> [])"

text \<open>One line of the listing \<open>for ch in chapters: print(...)\<close>.\<close>

definition chapter_line :: "pylib \<Rightarrow> json \<Rightarrow> exn + pystr" where
  "chapter_line B ch =
     and_then (py_subscript ch (lit ''chapter_number'')) (\<lambda>n.
     and_then (py_subscript ch (lit ''chapter_title'')) (\<lambda>t.
     and_then (py_subscript ch (lit ''start_page'')) (\<lambda>s.
     and_then (py_subscript ch (lit ''end_page'')) (\<lambda>e.
     Inr (lit ''  Chapter '' @ py_str B n @ lit '': '' @ py_str B t @ lit '' (pages ''
          @ py_str B s @ lit ''-'' @ py_str B e @ lit '')'')))))"

fun list_chapters :: "pylib \<Rightarrow> json list \<Rightarrow> printed \<Rightarrow> exn option \<times> printed" where
  "list_chapters B [] out = (None, out)"
| "list_chapters B (ch # rest) out =
     (case chapter_line B ch of
        Inl e \<Rightarrow> (Some e, out)
      | Inr line \<Rightarrow> list_chapters B rest (out @ [(Stdout, line)]))"

text \<open>The result: how the run ends, the files written into the output directory, and
  what was printed. Code point 10003 is the check mark of the last message.\<close>

definition pdf_main ::
  "pylib \<Rightarrow> 'p pdf_world \<Rightarrow> args \<Rightarrow> outcome \<times> (pystr \<times> 'p list) list \<times> printed" where
  "pdf_main B W A =
     (if \<not> pdf_exists W
      then (Exit 1, [], [(Stdout, lit ''Error: File not found: '' @ path_str B (pdf_file A))])
      else if \<not> opt_truth (py_or (api_key A) (getenv_key W))
      then (Exit 1, [], [(Stdout, lit ''Error: GEMINI_API_KEY required'')])
      else
       (let default_dir = path_sibling B (pdf_file A) (path_stem B (pdf_file A) @ lit ''_chapters'');
            out_dir = (case output_dir A of
                         None \<Rightarrow> default_dir
                       | Some d \<Rightarrow> if d = [] then default_dir else path_str B d)
        in case get_chapter_boundaries B (service W) of
          (Inl e, out1) \<Rightarrow>
            (if is_Exception e then (Exit 1, [], out1 @ [(Stdout, lit ''Error: '' @ str_exn B e)])
             else (Uncaught e, [], out1))
        | (Inr chapters, out1) \<Rightarrow>
            (if \<not> py_truth chapters
             then (Exit 1, [], out1 @ [(Stdout, lit ''Error: No chapters identified'')])
             else
              (case py_len chapters of
                 Inl e \<Rightarrow> (Uncaught e, [], out1)
               | Inr n \<Rightarrow>
                 (let out2 = out1 @ [(Stdout, lit ''\<newline>Found '' @ str_nat n @ lit '' chapters:'')] in
                  case py_iter chapters of
                    Inl e \<Rightarrow> (Uncaught e, [], out2)
                  | Inr chs \<Rightarrow>
                    (case list_chapters B chs out2 of
                       (Some e, out3) \<Rightarrow> (Uncaught e, [], out3)
                     | (None, out3) \<Rightarrow>
                       (case split_pdf B (reader W) chapters of
                          (Some e, written, out4) \<Rightarrow>
                            (if is_Exception e
                             then (Exit 1, written, out3 @ out4 @ [(Stdout, lit ''Error: '' @ str_exn B e)])
                             else (Uncaught e, written, out3 @ out4))
                        | (None, written, out4) \<Rightarrow>
                            (Returned, written,
                             out3 @ out4
                             @ [(Stdout, lit ''\<newline>'' @ [10003] @ lit '' Successfully split PDF into ''
                                         @ str_nat n @ lit '' chapters''),
                                (Stdout, lit ''  Output directory: '' @ out_dir)]))))))))"

section \<open>What the specification speaks of\<close>

subsection \<open>Well-formed course data and the counts\<close>

fun is_dict :: "json \<Rightarrow> bool" where
  "is_dict (JDict kvs) = True"
| "is_dict v = False"

text \<open>Well-formed tasks data: an object whose \<open>tasks\<close>, when present, is a list of
  objects. No field of a task is required.\<close>

definition wf_tasks_data :: "json \<Rightarrow> bool" where
  "wf_tasks_data v =
     (case v of
        JDict kvs \<Rightarrow>
          (case map_of kvs (lit ''tasks'') of
             None \<Rightarrow> True
           | Some (JList ts) \<Rightarrow> list_all is_dict ts
           | Some u \<Rightarrow> False)
      | u \<Rightarrow> False)"

text \<open>The \<open>tasks\<close> list, empty when the key is absent.\<close>

fun task_list :: "json \<Rightarrow> json list" where
  "task_list (JDict kvs) = (case map_of kvs (lit ''tasks'') of Some (JList ts) \<Rightarrow> ts | u \<Rightarrow> [])"
| "task_list v = []"

text \<open>An entry whose \<open>status\<close> field equals \<open>pending\<close>.\<close>

fun is_pending :: "json \<Rightarrow> bool" where
  "is_pending (JDict f) = (map_of f (lit ''status'') = Some (JStr (lit ''pending'')))"
| "is_pending v = False"

subsection \<open>The runs of the agent\<close>

definition tasks_file_of :: "path \<Rightarrow> path" where
  "tasks_file_of course_path = course_path @ [lit ''todo'', lit ''course_tasks.json'']"

definition info_file_of :: "path \<Rightarrow> path" where
  "info_file_of course_path = course_path @ [lit ''todo'', lit ''course_information.json'']"

fun returns :: "exn + 'a \<Rightarrow> bool" where
  "returns (Inr x) = True"
| "returns (Inl e) = False"

text \<open>A file fails to parse: the parser raises \<open>JSONDecodeError\<close>.\<close>

fun parse_fails :: "exn + json \<Rightarrow> bool" where
  "parse_fails (Inl (JSONDecodeError m)) = True"
| "parse_fails r = False"

text \<open>The run gets as far as the client session: the course directory exists, both
  files load, and the two lines that report the load are printed.\<close>

definition session_reached :: "pylib \<Rightarrow> filesystem \<Rightarrow> path \<Rightarrow> json \<Rightarrow> json \<Rightarrow> bool" where
  "session_reached B fs course_path tasks_data course_info =
     (path_exists fs course_path
      \<and> fst (load_course_data B fs course_path) = Inr (tasks_data, course_info)
      \<and> returns (and_then (py_get tasks_data (lit ''tasks'') (JList [])) py_len)
      \<and> returns (py_get course_info (lit ''course_name'') (JStr (lit ''Unknown''))))"

text \<open>The exception raised inside the second \<open>try\<close>, if any: by the connection, by the
  construction of the prompt, by the query or by the message stream.\<close>

definition raised_in_session :: "pylib \<Rightarrow> 'c session \<Rightarrow> json \<Rightarrow> json \<Rightarrow> exn option" where
  "raised_in_session B S tasks_data course_info =
     (case connect_raises S of
        Some e \<Rightarrow> Some e
      | None \<Rightarrow>
        (case construct_autonomous_instruction B tasks_data course_info of
           Inl e \<Rightarrow> Some e
         | Inr p \<Rightarrow>
           (case query_raises S of
              Some e \<Rightarrow> Some e
            | None \<Rightarrow> (case stream_end S of Raises e \<Rightarrow> Some e | Exhausted \<Rightarrow> None | Blocks \<Rightarrow> None))))"


subsection \<open>Chapter boundary records\<close>





text \<open>The title as it goes into the file name: the alphanumeric characters, spaces,
  hyphens and underscores of the title, stripped, with the spaces replaced by
  underscores, cut at 50 characters.\<close>

definition safe_title :: "pylib \<Rightarrow> pystr \<Rightarrow> pystr" where
  "safe_title B t =
     take 50 (replace_space (strip B (filter (\<lambda>c. isalnum B c \<or> c = 32 \<or> c = 45 \<or> c = 95) t)))"



text \<open>The four keys of a record, in the order in which the listing of \<open>main\<close> reads
  them.\<close>

definition chapter_keys :: "pystr list" where
  "chapter_keys = [lit ''chapter_number'', lit ''chapter_title'', lit ''start_page'', lit ''end_page'']"

text \<open>The PDF script gets as far as the call of the service: the file exists and there
  is a key.\<close>

definition service_reached :: "'p pdf_world \<Rightarrow> args \<Rightarrow> bool" where
  "service_reached W A = (pdf_exists W \<and> opt_truth (py_or (api_key A) (getenv_key W)))"

text \<open>It gets as far as the call of \<open>split_pdf\<close> with these chapters: the service
  returned them, they are not empty, and the listing went through.\<close>

definition split_reached :: "pylib \<Rightarrow> 'p pdf_world \<Rightarrow> args \<Rightarrow> json \<Rightarrow> bool" where
  "split_reached B W A chapters =
     (service_reached W A
      \<and> fst (get_chapter_boundaries B (service W)) = Inr chapters
      \<and> py_truth chapters
      \<and> returns (py_len chapters)
      \<and> (case py_iter chapters of
           Inl e \<Rightarrow> False
         | Inr chs \<Rightarrow> fst (list_chapters B chs []) = None))"

subsection \<open>Sample inputs\<close>

text \<open>A course with three tasks of which one is pending.\<close>

definition sample_tasks :: json where
  "sample_tasks =
     JDict [(lit ''tasks'',
             JList [JDict [(lit ''id'', JInt 1), (lit ''status'', JStr (lit ''pending''))],
                    JDict [(lit ''id'', JInt 2), (lit ''status'', JStr (lit ''done''))],
                    JDict [(lit ''id'', JInt 3)]])]"

definition sample_info :: json where
  "sample_info = JDict [(lit ''course_name'', JStr (lit ''Logic''))]"

text \<open>A document of five pages, each page standing for itself, and chapter lists for
  it: two chapters; a chapter that ends after the last page; the same chapter twice; a
  hundredth chapter; a chapter without its end page.\<close>

definition sample_pages :: "nat list" where
  "sample_pages = [1, 2, 3, 4, 5]"

definition chapter_record :: "int \<Rightarrow> string \<Rightarrow> int \<Rightarrow> int \<Rightarrow> json" where
  "chapter_record n t s e =
     JDict [(lit ''chapter_number'', JInt n), (lit ''chapter_title'', JStr (lit t)),
            (lit ''start_page'', JInt s), (lit ''end_page'', JInt e)]"



definition sample_chapters_long :: json where
  "sample_chapters_long = JList [chapter_record 1 ''Intro'' 1 6]"



definition sample_chapters_no_end :: json where
  "sample_chapters_no_end =
     JList [JDict [(lit ''chapter_number'', JInt 1), (lit ''chapter_title'', JStr (lit ''Intro'')),
                   (lit ''start_page'', JInt 1)]]"

text \<open>An instance of the library parameters on ASCII: letters and digits are
  alphanumeric, the space and the control characters 9 to 13 are whitespace. Its JSON
  parser knows four texts.\<close>

definition sample_lib :: pylib where
  "sample_lib =
     \<lparr> isalnum = (\<lambda>c. (48 \<le> c \<and> c \<le> 57) \<or> (65 \<le> c \<and> c \<le> 90) \<or> (97 \<le> c \<and> c \<le> 122)),
       isspace = (\<lambda>c. c = 32 \<or> (9 \<le> c \<and> c \<le> 13)),
       str_other = (\<lambda>v. lit ''<value>''),
       interp_text = (\<lambda>e. lit ''<message>''),
       traceback_text = (\<lambda>e. lit ''Traceback (most recent call last): ...''),
       json_loads = (\<lambda>s. if s = lit ''TASKS'' then Inr sample_tasks
                          else if s = lit ''INFO'' then Inr sample_info
                          else if s = lit ''{}'' then Inr (JDict [])
                          else if s = lit ''LONG'' then Inr (JDict [(lit ''chapters'', sample_chapters_long)])
                          else Inl (JSONDecodeError (lit ''Expecting value: line 1 column 1 (char 0)''))),
       path_str = (\<lambda>s. s),
       path_sibling = (\<lambda>s name. name),
       path_stem = (\<lambda>s. s) \<rparr>"

text \<open>A course directory with its two files, the same without the tasks file, and the
  same with a tasks file that is not JSON.\<close>

definition sample_course :: path where
  "sample_course = [lit ''home'', lit ''courseX'']"

definition sample_fs :: filesystem where
  "sample_fs p =
     (if p = sample_course \<or> p = sample_course @ [lit ''todo''] then Some Dir
      else if p = tasks_file_of sample_course then Some (File (lit ''TASKS''))
      else if p = info_file_of sample_course then Some (File (lit ''INFO''))
      else None)"

definition sample_fs_no_tasks :: filesystem where
  "sample_fs_no_tasks p = (if p = tasks_file_of sample_course then None else sample_fs p)"

definition sample_fs_bad_json :: filesystem where
  "sample_fs_bad_json p =
     (if p = tasks_file_of sample_course then Some (File (lit ''{tasks:'')) else sample_fs p)"

text \<open>Costs counted in whole units stand for the floats.\<close>

definition sample_floatops :: "int floatops" where
  "sample_floatops = \<lparr> fzero = 0, fadd = (\<lambda>a b. a + b), ftruth = (\<lambda>c. c \<noteq> 0), fmt6 = str_int \<rparr>"

text \<open>A session that runs to its end, one whose connection is refused, one that the
  user interrupts, and one that fails with another error.\<close>

definition sample_session :: "int session" where
  "sample_session =
     \<lparr> connect_raises = None, query_raises = None,
       messages = [AssistantMessage [TextBlock (lit ''Working on task 1'')], ResultMessage (Some 5)],
       stream_end = Exhausted \<rparr>"

definition sample_session_refused :: "int session" where
  "sample_session_refused =
     \<lparr> connect_raises = Some (CLIConnectionError (lit ''Claude Code not found'')),
       query_raises = None, messages = [], stream_end = Exhausted \<rparr>"


definition sample_session_failed :: "int session" where
  "sample_session_failed =
     \<lparr> connect_raises = None, query_raises = Some (OtherException (lit ''process exited'')),
       messages = [], stream_end = Exhausted \<rparr>"


definition sample_service_refuses :: gemini where
  "sample_service_refuses =
     \<lparr> configure_raises = None, upload_raises = None,
       generate = Inl (OtherException (lit ''429 quota exceeded'')), delete_raises = None \<rparr>"

definition sample_service_long :: gemini where
  "sample_service_long =
     \<lparr> configure_raises = None, upload_raises = None,
       generate = Inr (lit ''LONG''), delete_raises = None \<rparr>"

definition sample_world :: "gemini \<Rightarrow> nat pdf_world" where
  "sample_world G =
     \<lparr> pdf_exists = True, getenv_key = Some (lit ''secret''), service = G,
       reader = Inr sample_pages \<rparr>"

definition sample_args :: args where
  "sample_args = \<lparr> pdf_file = lit ''book.pdf'', output_dir = None, api_key = None \<rparr>"

section \<open>Basic facts\<close>

lemma and_then_Inl [simp]: "and_then (Inl e) f = Inl e"
  by (simp add: and_then_def)

lemma and_then_Inr [simp]: "and_then (Inr x) f = f x"
  by (simp add: and_then_def)


lemma lit_eq_iff [simp]: "lit a = lit b \<longleftrightarrow> a = b"
  by (simp add: lit_def inj_map_eq_map inj_of_char inj_on_def)

lemma lit_eq_Nil [simp]: "lit s = [] \<longleftrightarrow> s = []"
  by (simp add: lit_def)

lemma str_nat_digit: "n < 10 \<Longrightarrow> str_nat n = [48 + n]"
  by (simp add: str_nat.simps)

section \<open>The prompt and its counts\<close>


lemma pending_of_dicts: "list_all is_dict ts \<Longrightarrow> pending_of ts = Inr (filter is_pending ts)"
proof (induction ts)
  case Nil
  then show ?case by simp
next
  case (Cons t ts)
  then show ?case by (cases t) (auto split: option.splits)
qed

lemma construct_wf:
  assumes "wf_tasks_data tasks_data" and "is_dict course_info"
  shows "\<exists>name. construct_autonomous_instruction B tasks_data course_info =
     Inr (prompt_template name (length (task_list tasks_data))
            (length (filter is_pending (task_list tasks_data))))"
proof -
  obtain kvs where td: "tasks_data = JDict kvs"
    using assms(1) by (cases tasks_data) (simp_all add: wf_tasks_data_def)
  obtain cs where ci: "course_info = JDict cs"
    using assms(2) by (cases course_info) simp_all
  show ?thesis
  proof (cases "map_of kvs (lit ''tasks'')")
    case None
    then show ?thesis
      by (auto simp add: construct_autonomous_instruction_def td ci)
  next
    case (Some v)
    with assms(1) td obtain ts where v: "v = JList ts" and d: "list_all is_dict ts"
      by (cases v) (simp_all add: wf_tasks_data_def)
    from Some v d show ?thesis
      by (auto simp add: construct_autonomous_instruction_def td ci pending_of_dicts)
  qed
qed


lemma sample_tasks_wf: "wf_tasks_data sample_tasks"
  by (simp add: sample_tasks_def wf_tasks_data_def)

lemma sample_info_dict: "is_dict sample_info"
  by (simp add: sample_info_def)

lemma sample_total: "length (task_list sample_tasks) = 3"
  by (simp add: sample_tasks_def)

lemma sample_pending: "length (filter is_pending (task_list sample_tasks)) = 1"
  by (simp add: sample_tasks_def)

lemma sample_prompt:
  "construct_autonomous_instruction sample_lib sample_tasks sample_info =
     Inr (prompt_template (lit ''Logic'') 3 1)"
  by (simp add: construct_autonomous_instruction_def sample_tasks_def sample_info_def
      eval_nat_numeral)

text \<open>
  Claim C1. For well-formed tasks data (an object whose \<open>tasks\<close>, when present, is a list
  of objects) and a course-info object, \<open>construct_autonomous_instruction\<close> returns a
  prompt, and the prompt contains the sentence with the total count, which is the length
  of the \<open>tasks\<close> list (0 when the key is absent), and the pending count, which is the
  number of entries of that list whose \<open>status\<close> equals \<open>pending\<close>.
\<close>

theorem prompt_counts_correct:
  assumes "wf_tasks_data tasks_data" and "is_dict course_info"
  shows "\<exists>pre post. construct_autonomous_instruction B tasks_data course_info =
     Inr (pre @ lit ''There are '' @ str_nat (length (task_list tasks_data))
          @ lit '' total tasks, with ''
          @ str_nat (length (filter is_pending (task_list tasks_data)))
          @ lit '' currently pending.'' @ post)"
proof -
  from construct_wf [OF assms] obtain name where
    "construct_autonomous_instruction B tasks_data course_info =
     Inr (prompt_template name (length (task_list tasks_data))
            (length (filter is_pending (task_list tasks_data))))" ..
  then show ?thesis
    unfolding prompt_template_def by blast
qed

text \<open>On the sample course, three tasks of which one is pending.\<close>

theorem prompt_counts_correct_witness:
  "wf_tasks_data sample_tasks \<and> is_dict sample_info \<and>
   (\<exists>pre post. construct_autonomous_instruction sample_lib sample_tasks sample_info =
      Inr (pre @ lit ''There are 3 total tasks, with 1 currently pending.'' @ post))"
proof -
  have s: "lit ''There are 3 total tasks, with 1 currently pending.'' =
     lit ''There are '' @ str_nat 3 @ lit '' total tasks, with '' @ str_nat 1
     @ lit '' currently pending.''"
    by (simp add: lit_def str_nat_digit)
  show ?thesis
    using prompt_counts_correct [OF sample_tasks_wf sample_info_dict, of sample_lib]
    by (simp add: sample_tasks_wf sample_info_dict sample_total sample_pending s)
qed



section \<open>Loading the course data\<close>

lemma load_course_data_same_fs: "snd (load_course_data B fs course_path) = fs"
  by (auto simp: load_course_data_def read_json_def path_exists_def Let_def
      split: option.splits node.splits sum.splits prod.splits)

lemma load_course_data_returns:
  assumes "fs (tasks_file_of course_path) = Some (File t)"
    and "fs (info_file_of course_path) = Some (File i)"
    and "json_loads B t = Inr tasks_data" and "json_loads B i = Inr course_info"
  shows "fst (load_course_data B fs course_path) = Inr (tasks_data, course_info)"
  using assms
  by (simp add: load_course_data_def read_json_def path_exists_def tasks_file_of_def
      info_file_of_def Let_def)

text \<open>
  Claim C7. \<open>load_course_data\<close> leaves the file system as it found it, whatever it
  returns or raises: no file is written or modified. When both files are there and both
  parse, it returns their parsed contents.
\<close>

theorem load_course_data_frame:
  "snd (load_course_data B fs course_path) = fs \<and>
   (fs (tasks_file_of course_path) = Some (File t) \<and>
    fs (info_file_of course_path) = Some (File i) \<and>
    json_loads B t = Inr tasks_data \<and> json_loads B i = Inr course_info
    \<longrightarrow> fst (load_course_data B fs course_path) = Inr (tasks_data, course_info))"
  using load_course_data_same_fs load_course_data_returns by blast

text \<open>The sample course directory.\<close>

lemma sample_fs_tasks: "sample_fs (tasks_file_of sample_course) = Some (File (lit ''TASKS''))"
  by (simp add: sample_fs_def tasks_file_of_def sample_course_def)
lemma sample_fs_info: "sample_fs (info_file_of sample_course) = Some (File (lit ''INFO''))"
  by (simp add: sample_fs_def tasks_file_of_def info_file_of_def sample_course_def)
lemma sample_fs_dir: "path_exists sample_fs sample_course"
  by (simp add: sample_fs_def path_exists_def)
lemma sample_loads_tasks: "json_loads sample_lib (lit ''TASKS'') = Inr sample_tasks"
  by (simp add: sample_lib_def)
lemma sample_loads_info: "json_loads sample_lib (lit ''INFO'') = Inr sample_info"
  by (simp add: sample_lib_def)

text \<open>On the sample course both files are read and the file system is the same afterwards.\<close>

theorem load_course_data_frame_witness:
  "sample_fs (tasks_file_of sample_course) = Some (File (lit ''TASKS'')) \<and>
   sample_fs (info_file_of sample_course) = Some (File (lit ''INFO'')) \<and>
   json_loads sample_lib (lit ''TASKS'') = Inr sample_tasks \<and>
   json_loads sample_lib (lit ''INFO'') = Inr sample_info \<and>
   load_course_data sample_lib sample_fs sample_course = (Inr (sample_tasks, sample_info), sample_fs)"
  using load_course_data_frame [of sample_lib sample_fs sample_course "lit ''TASKS''" "lit ''INFO''" sample_tasks sample_info]
  by (simp add: sample_fs_tasks sample_fs_info sample_loads_tasks sample_loads_info prod_eq_iff)

section \<open>The exit codes of the agent\<close>

text \<open>Both entry points, \<open>main\<close> with a directory on the command line and the runner
  script of a course, come to \<open>run_autonomous_agent\<close>.\<close>

lemma agent_main_runs:
  "2 \<le> length argv \<Longrightarrow>
   agent_main B F resolve fs S argv = run_autonomous_agent B F fs S (resolve (argv ! 1))"
  by (simp add: agent_main_def)

lemma agent_main_usage: "length argv < 2 \<Longrightarrow> fst (agent_main B F resolve fs S argv) = Exit 1"
  by (simp add: agent_main_def)

lemma session_reachedD:
  assumes "session_reached B fs p td ci"
  shows "\<exists>out. run_autonomous_agent B F fs S p = agent_session B F S td ci out"
  using assms
  by (auto simp: session_reached_def run_autonomous_agent_def Let_def split: sum.splits)

lemma handle_message_extends:
  "\<exists>tc' ext. handle_message F m (tc, n, out) = (tc', Suc n, out @ ext)"
  by (cases "(F, m, (tc, n, out))" rule: handle_message.cases) auto

lemma fold_handle_message:
  "\<exists>tc' ext. fold (handle_message F) ms (tc, n, out) = (tc', n + length ms, out @ ext)"
proof (induction ms arbitrary: tc n out)
  case Nil
  then show ?case by simp
next
  case (Cons m ms)
  obtain tc1 ext1 where h: "handle_message F m (tc, n, out) = (tc1, Suc n, out @ ext1)"
    using handle_message_extends [of F m tc n out] by auto
  obtain tc2 ext2 where
    "fold (handle_message F) ms (tc1, Suc n, out @ ext1) = (tc2, Suc n + length ms, (out @ ext1) @ ext2)"
    using Cons.IH [of tc1 "Suc n" "out @ ext1"] by auto
  with h show ?case by simp
qed

lemma agent_session_raised:
  assumes "raised_in_session B S td ci = Some e"
  shows "\<exists>total_cost out'. agent_session B F S td ci out = session_handlers B F e total_cost (out @ out')"
proof (cases "connect_raises S")
  case (Some e')
  with assms have "agent_session B F S td ci out = session_handlers B F e (fzero F) (out @ [])"
    by (simp add: raised_in_session_def agent_session_def)
  then show ?thesis by blast
next
  case None
  note c = None
  show ?thesis
  proof (cases "construct_autonomous_instruction B td ci")
    case (Inl e')
    with assms c have "agent_session B F S td ci out = session_handlers B F e (fzero F) (out @ [])"
      by (simp add: raised_in_session_def agent_session_def)
    then show ?thesis by blast
  next
    case (Inr prompt)
    note p = Inr
    show ?thesis
    proof (cases "query_raises S")
      case (Some e')
      with assms c p show ?thesis
        by (auto simp: raised_in_session_def agent_session_def Let_def)
    next
      case None
      with assms c p have se: "stream_end S = Raises e"
        by (auto simp: raised_in_session_def split: ending.splits)
      define lines where "lines =
         [(Stdout, lit ''\<newline>Sending initial instruction to Claude...''),
          (Stdout, lit ''\<newline>Claude is now working autonomously...''),
          (Stdout, lit ''(You can monitor progress below)\<newline>'')]"
      obtain tc ext where f:
        "fold (handle_message F) (messages S) (fzero F, 0, out @ lines)
           = (tc, length (messages S), (out @ lines) @ ext)"
        using fold_handle_message [of F "messages S" "fzero F" 0 "out @ lines"] by auto
      have "agent_session B F S td ci out = session_handlers B F e tc (out @ (lines @ ext))"
        using None c p se f [unfolded lines_def] by (simp add: agent_session_def Let_def lines_def)
      then show ?thesis by blast
    qed
  qed
qed


lemma load_error_status:
  assumes "fst (load_course_data B fs p) = Inl e"
    and "(\<exists>m. e = FileNotFoundError m) \<or> (\<exists>m. e = JSONDecodeError m)"
  shows "exit_status (fst (run_autonomous_agent B F fs S p)) = Some 1"
  using assms by (auto simp: run_autonomous_agent_def Let_def)

lemma load_missing:
  assumes "fs (tasks_file_of p) = None \<or> fs (info_file_of p) = None"
  shows "\<exists>m. fst (load_course_data B fs p) = Inl (FileNotFoundError m)"
  using assms
  by (auto simp: load_course_data_def path_exists_def tasks_file_of_def info_file_of_def Let_def)

lemma load_parse_fails:
  assumes "fs (tasks_file_of p) = Some (File t)" and "fs (info_file_of p) = Some (File i)"
    and "parse_fails (json_loads B t) \<or> (returns (json_loads B t) \<and> parse_fails (json_loads B i))"
  shows "\<exists>m. fst (load_course_data B fs p) = Inl (JSONDecodeError m)"
proof -
  have pf: "\<exists>m. r = Inl (JSONDecodeError m)" if "parse_fails r" for r
    using that by (cases r rule: parse_fails.cases) simp_all
  have rt: "\<exists>v. r = Inr v" if "returns r" for r :: "exn + json"
    using that by (cases r) simp_all
  from assms(3) show ?thesis
  proof
    assume "parse_fails (json_loads B t)"
    from pf [OF this] assms(1,2) show ?thesis
      by (auto simp: load_course_data_def read_json_def path_exists_def tasks_file_of_def
          info_file_of_def Let_def)
  next
    assume "returns (json_loads B t) \<and> parse_fails (json_loads B i)"
    then obtain v m where "json_loads B t = Inr v" "json_loads B i = Inl (JSONDecodeError m)"
      using pf rt by blast
    with assms(1,2) show ?thesis
      by (auto simp: load_course_data_def read_json_def path_exists_def tasks_file_of_def
          info_file_of_def Let_def)
  qed
qed

text \<open>
  Claim C3. The agent exits with code 1 when the tasks file or the course-information
  file is missing, when both are there and one of them fails to parse (the tasks file
  does, or it parses and the course-information file does), and when the run has come to
  the client session and entering it raises a connection error. A run whose course
  directory is missing as well ends with an uncaught \<open>FileNotFoundError\<close>, which the
  interpreter turns into the exit status 1.
\<close>

theorem agent_exit_code_1:
  assumes "(fs (tasks_file_of p) = None \<or> fs (info_file_of p) = None)
         \<or> (fs (tasks_file_of p) = Some (File t) \<and> fs (info_file_of p) = Some (File i) \<and>
            (parse_fails (json_loads B t)
             \<or> (returns (json_loads B t) \<and> parse_fails (json_loads B i))))
         \<or> (session_reached B fs p td ci \<and> connect_raises S = Some (CLIConnectionError m))"
  shows "exit_status (fst (run_autonomous_agent B F fs S p)) = Some 1"
  using assms
proof (elim disjE)
  assume "fs (tasks_file_of p) = None"
  then show ?thesis using load_missing load_error_status by blast
next
  assume "fs (info_file_of p) = None"
  then show ?thesis using load_missing load_error_status by blast
next
  assume "fs (tasks_file_of p) = Some (File t) \<and> fs (info_file_of p) = Some (File i) \<and>
            (parse_fails (json_loads B t)
             \<or> (returns (json_loads B t) \<and> parse_fails (json_loads B i)))"
  then show ?thesis using load_parse_fails load_error_status by blast
next
  assume a: "session_reached B fs p td ci \<and> connect_raises S = Some (CLIConnectionError m)"
  then obtain out where "run_autonomous_agent B F fs S p = agent_session B F S td ci out"
    using session_reachedD by blast
  with a show ?thesis by (simp add: agent_session_def)
qed


text \<open>The sample runs.\<close>

lemma sample_reached: "session_reached sample_lib sample_fs sample_course sample_tasks sample_info"
proof -
  have "fst (load_course_data sample_lib sample_fs sample_course) = Inr (sample_tasks, sample_info)"
    using load_course_data_returns [OF sample_fs_tasks sample_fs_info sample_loads_tasks sample_loads_info] .
  then show ?thesis
    by (simp add: session_reached_def sample_fs_dir) (simp add: sample_tasks_def sample_info_def)
qed

lemma sample_no_tasks: "sample_fs_no_tasks (tasks_file_of sample_course) = None"
  by (simp add: sample_fs_no_tasks_def)

lemma info_not_tasks: "info_file_of p \<noteq> tasks_file_of p"
  by (simp add: tasks_file_of_def info_file_of_def)

lemma sample_bad_json:
  "sample_fs_bad_json (tasks_file_of sample_course) = Some (File (lit ''{tasks:''))"
  "sample_fs_bad_json (info_file_of sample_course) = Some (File (lit ''INFO''))"
  "parse_fails (json_loads sample_lib (lit ''{tasks:''))"
  by (simp_all add: sample_fs_bad_json_def sample_fs_info info_not_tasks sample_lib_def)

text \<open>A run without the tasks file, a run whose tasks file is not JSON, and a run whose
  connection is refused.\<close>

theorem agent_exit_code_1_witness:
  "(sample_fs_no_tasks (tasks_file_of sample_course) = None \<and>
    exit_status (fst (run_autonomous_agent sample_lib sample_floatops sample_fs_no_tasks sample_session sample_course)) = Some 1)
   \<and> (sample_fs_bad_json (tasks_file_of sample_course) = Some (File (lit ''{tasks:'')) \<and>
      sample_fs_bad_json (info_file_of sample_course) = Some (File (lit ''INFO'')) \<and>
      parse_fails (json_loads sample_lib (lit ''{tasks:'')) \<and>
      exit_status (fst (run_autonomous_agent sample_lib sample_floatops sample_fs_bad_json sample_session sample_course)) = Some 1)
   \<and> (session_reached sample_lib sample_fs sample_course sample_tasks sample_info \<and>
      connect_raises sample_session_refused = Some (CLIConnectionError (lit ''Claude Code not found'')) \<and>
      exit_status (fst (run_autonomous_agent sample_lib sample_floatops sample_fs sample_session_refused sample_course)) = Some 1)"
proof -
  have c: "connect_raises sample_session_refused = Some (CLIConnectionError (lit ''Claude Code not found''))"
    by (simp add: sample_session_refused_def)
  show ?thesis
    using agent_exit_code_1 [where fs = sample_fs_no_tasks and p = sample_course and B = sample_lib
        and F = sample_floatops and S = sample_session]
      agent_exit_code_1 [where fs = sample_fs_bad_json and p = sample_course and B = sample_lib
        and t = "lit ''{tasks:''" and i = "lit ''INFO''" and F = sample_floatops and S = sample_session]
      agent_exit_code_1 [where fs = sample_fs and p = sample_course and B = sample_lib
        and td = sample_tasks and ci = sample_info and S = sample_session_refused
        and m = "lit ''Claude Code not found''" and F = sample_floatops]
    by (simp add: sample_no_tasks sample_bad_json sample_reached c)
qed




section \<open>Splitting the document\<close>




















section \<open>The names of the chapter files\<close>













section \<open>Missing fields\<close>

lemma wf_no_error:
  assumes "wf_tasks_data td" and "is_dict ci"
  shows "returns (construct_autonomous_instruction B td ci)"
    and "returns (and_then (py_get td (lit ''tasks'') (JList [])) py_len)"
    and "returns (py_get ci (lit ''course_name'') (JStr (lit ''Unknown'')))"
proof -
  from construct_wf [OF assms, of B] show "returns (construct_autonomous_instruction B td ci)" by auto
  from assms(1) show "returns (and_then (py_get td (lit ''tasks'') (JList [])) py_len)"
    by (cases td) (auto simp: wf_tasks_data_def split: option.splits json.splits)
  from assms(2) show "returns (py_get ci (lit ''course_name'') (JStr (lit ''Unknown'')))"
    by (cases ci) simp_all
qed

lemma chapter_line_missing:
  assumes "k \<in> set chapter_keys" and "map_of kvs k = None"
  shows "\<exists>k'. chapter_line B (JDict kvs) = Inl (KeyError k')"
  using assms
  by (auto simp: chapter_keys_def chapter_line_def split: option.splits)

lemma split_pdf_missing_start:
  assumes "map_of kvs (lit ''start_page'') = None"
  shows "fst (split_pdf B (Inr pages) (JList (JDict kvs # rest))) = Some (KeyError (lit ''start_page''))"
  using assms by (simp add: split_pdf_def chapter_file_def)

text \<open>
  Claim C6, as amended. The fields of the tasks data, of a task record and of the
  course-info record are read by \<open>get\<close> with a default: on every tasks object whose
  \<open>tasks\<close>, when present, is a list of objects, and every course-info object, whatever
  fields they lack, neither the construction of the prompt nor the two lines that report
  the load raise. The fields of a chapter boundary record are read by subscription: a
  record that lacks one of its four keys makes the listing of \<open>main\<close> raise \<open>KeyError\<close>,
  and a first record without \<open>start_page\<close> makes \<open>split_pdf\<close> raise it.
\<close>

theorem lookups_with_defaults:
  "(wf_tasks_data td \<and> is_dict ci \<longrightarrow>
      returns (construct_autonomous_instruction B td ci)
      \<and> returns (and_then (py_get td (lit ''tasks'') (JList [])) py_len)
      \<and> returns (py_get ci (lit ''course_name'') (JStr (lit ''Unknown''))))
   \<and> (k \<in> set chapter_keys \<and> map_of kvs k = None \<longrightarrow>
      (\<exists>k'. chapter_line B (JDict kvs) = Inl (KeyError k')))
   \<and> (map_of kvs (lit ''start_page'') = None \<longrightarrow>
      fst (split_pdf B (Inr pages) (JList (JDict kvs # rest))) = Some (KeyError (lit ''start_page'')))"
  using wf_no_error chapter_line_missing split_pdf_missing_start by blast

text \<open>A task record and a course-info record without any field, and a chapter record
  with its number only.\<close>

theorem lookups_with_defaults_witness:
  "wf_tasks_data (JDict [(lit ''tasks'', JList [JDict []])]) \<and> is_dict (JDict [])
   \<and> returns (construct_autonomous_instruction sample_lib (JDict [(lit ''tasks'', JList [JDict []])]) (JDict []))
   \<and> lit ''start_page'' \<in> set chapter_keys
   \<and> map_of [(lit ''chapter_number'', JInt 1)] (lit ''start_page'') = None
   \<and> (\<exists>k'. chapter_line sample_lib (JDict [(lit ''chapter_number'', JInt 1)]) = Inl (KeyError k'))
   \<and> fst (split_pdf sample_lib (Inr sample_pages) (JList [JDict [(lit ''chapter_number'', JInt 1)]]))
       = Some (KeyError (lit ''start_page''))"
proof -
  have h: "wf_tasks_data (JDict [(lit ''tasks'', JList [JDict []])])" "is_dict (JDict [])"
    "lit ''start_page'' \<in> set chapter_keys"
    "map_of [(lit ''chapter_number'', JInt 1)] (lit ''start_page'') = None"
    by (simp_all add: wf_tasks_data_def chapter_keys_def)
  show ?thesis
    using lookups_with_defaults [of "JDict [(lit ''tasks'', JList [JDict []])]" "JDict []" sample_lib
        "lit ''start_page''" "[(lit ''chapter_number'', JInt 1)]" sample_pages "[]"] h
    by simp
qed

text \<open>
  Claim C6 as stated fails. On a chapter record without \<open>end_page\<close>, \<open>split_pdf\<close> raises
  \<open>KeyError\<close> on the missing key.
\<close>

theorem lookups_with_defaults_counterexample:
  "split_pdf sample_lib (Inr sample_pages) sample_chapters_no_end =
     (Some (KeyError (lit ''end_page'')), [], [(Stdout, lit ''\<newline>Splitting PDF into 1 chapters...'')])"
  by code_simp

section \<open>A response without chapters\<close>


lemma sample_service_reached: "service_reached (sample_world G) sample_args"
  by (simp add: service_reached_def sample_world_def sample_args_def)



section \<open>The report of a caught error\<close>

lemma on_stream_append: "on_stream st (a @ b) = on_stream st a @ on_stream st b"
  by (simp add: on_stream_def)

lemma on_stream_simps [simp]:
  "on_stream st [] = []"
  "on_stream Stderr ((Stdout, l) # out) = on_stream Stderr out"
  by (simp_all add: on_stream_def)

lemma session_handlers_caught:
  assumes "is_Exception e"
  shows "fst (session_handlers B F e tc out) = Exit 1
     \<and> (\<exists>pre. (Stderr, pre @ str_exn B e) \<in> set (snd (session_handlers B F e tc out)))"
  using assms by (cases e) auto

lemma load_caught:
  assumes "path_exists fs p" and "fst (load_course_data B fs p) = Inl e"
    and "(\<exists>m. e = FileNotFoundError m) \<or> (\<exists>m. e = JSONDecodeError m)"
  shows "fst (run_autonomous_agent B F fs S p) = Exit 1
     \<and> (\<exists>pre. last (snd (run_autonomous_agent B F fs S p)) = (Stderr, pre @ str_exn B e))"
  using assms by (auto simp: run_autonomous_agent_def Let_def)

lemma session_caught:
  assumes "session_reached B fs p td ci" and "raised_in_session B S td ci = Some e"
    and "is_Exception e"
  shows "fst (run_autonomous_agent B F fs S p) = Exit 1
     \<and> (\<exists>pre. (Stderr, pre @ str_exn B e) \<in> set (snd (run_autonomous_agent B F fs S p)))"
proof -
  from assms(1) obtain out where "run_autonomous_agent B F fs S p = agent_session B F S td ci out"
    using session_reachedD by blast
  moreover from agent_session_raised [OF assms(2)] obtain tc out' where
    "agent_session B F S td ci out = session_handlers B F e tc (out @ out')" by blast
  ultimately show ?thesis using session_handlers_caught [OF assms(3)] by simp
qed

lemma get_chapter_boundaries_stdout:
  "on_stream Stderr (snd (get_chapter_boundaries B G)) = []"
  by (simp add: get_chapter_boundaries_def Let_def split: option.splits sum.splits)

lemma list_chapters_stderr:
  "on_stream Stderr (snd (list_chapters B chs out)) = on_stream Stderr out"
  by (induction chs arbitrary: out) (simp_all add: on_stream_append split: sum.splits)

lemma list_chapters_fst: "fst (list_chapters B chs out) = fst (list_chapters B chs [])"
proof (induction chs arbitrary: out)
  case Nil
  then show ?case by simp
next
  case (Cons c chs)
  from Cons [of "out @ [(Stdout, l)]" for l] Cons [of "[] @ [(Stdout, l)]" for l]
  show ?case by (simp split: sum.splits)
qed

lemma split_loop_stderr:
  "on_stream Stderr (snd (snd (split_loop B pages chs (w, out)))) = on_stream Stderr out"
  by (induction chs arbitrary: w out) (simp_all add: on_stream_append split: sum.splits)

lemma split_pdf_stderr: "on_stream Stderr (snd (snd (split_pdf B rd chapters))) = []"
  by (simp add: split_pdf_def Let_def split_loop_stderr split: sum.splits)

lemma service_caught:
  assumes "service_reached W A" and "fst (get_chapter_boundaries B (service W)) = Inl e"
    and "is_Exception e"
  shows "fst (pdf_main B W A) = Exit 1
     \<and> last (snd (snd (pdf_main B W A))) = (Stdout, lit ''Error: '' @ str_exn B e)
     \<and> on_stream Stderr (snd (snd (pdf_main B W A))) = []"
proof -
  obtain out1 where g: "get_chapter_boundaries B (service W) = (Inl e, out1)"
    using assms(2) by (cases "get_chapter_boundaries B (service W)") simp
  have "on_stream Stderr out1 = []"
    using get_chapter_boundaries_stdout [of B "service W"] g by simp
  moreover have "pdf_main B W A = (Exit 1, [], out1 @ [(Stdout, lit ''Error: '' @ str_exn B e)])"
    using assms(1,3) g by (simp add: pdf_main_def service_reached_def Let_def)
  ultimately show ?thesis by (simp add: on_stream_append)
qed

lemma split_caught:
  assumes "split_reached B W A chapters" and "fst (split_pdf B (reader W) chapters) = Some e"
    and "is_Exception e"
  shows "fst (pdf_main B W A) = Exit 1
     \<and> last (snd (snd (pdf_main B W A))) = (Stdout, lit ''Error: '' @ str_exn B e)
     \<and> on_stream Stderr (snd (snd (pdf_main B W A))) = []"
proof -
  from assms(1) have sr: "pdf_exists W" "opt_truth (py_or (api_key A) (getenv_key W))"
    and gf: "fst (get_chapter_boundaries B (service W)) = Inr chapters"
    and tr: "py_truth chapters" and ln: "returns (py_len chapters)"
    by (simp_all add: split_reached_def service_reached_def)
  from assms(1) obtain chs where it: "py_iter chapters = Inr chs"
    and lf: "fst (list_chapters B chs []) = None"
    by (auto simp: split_reached_def split: sum.splits)
  obtain out1 where g: "get_chapter_boundaries B (service W) = (Inr chapters, out1)"
    using gf by (cases "get_chapter_boundaries B (service W)") simp
  have e1: "on_stream Stderr out1 = []"
    using get_chapter_boundaries_stdout [of B "service W"] g by simp
  obtain n where n: "py_len chapters = Inr n" using ln by (cases "py_len chapters") simp_all
  define out2 where "out2 = out1 @ [(Stdout, lit ''\<newline>Found '' @ str_nat n @ lit '' chapters:'')]"
  obtain out3 where l: "list_chapters B chs out2 = (None, out3)"
    using lf list_chapters_fst [of B chs out2] by (cases "list_chapters B chs out2") simp
  have e3: "on_stream Stderr out3 = []"
    using list_chapters_stderr [of B chs out2] l e1 by (simp add: out2_def on_stream_append)
  obtain written out4 where sp: "split_pdf B (reader W) chapters = (Some e, written, out4)"
    using assms(2) by (cases "split_pdf B (reader W) chapters") auto
  have e4: "on_stream Stderr out4 = []"
    using split_pdf_stderr [of B "reader W" chapters] sp by simp
  have "pdf_main B W A = (Exit 1, written, out3 @ out4 @ [(Stdout, lit ''Error: '' @ str_exn B e)])"
    using sr g tr n it l [unfolded out2_def] sp assms(3) by (simp add: pdf_main_def Let_def)
  with e3 e4 show ?thesis by (simp add: on_stream_append)
qed

text \<open>
  Claim C4, as amended. Every error caught at the top level of either script ends the
  process with the exit code 1. The agent reports it on standard error: a
  \<open>FileNotFoundError\<close> or \<open>JSONDecodeError\<close> of the load in the last line printed, an
  \<open>Exception\<close> raised in the client session in a line of standard error. The PDF script
  reports it on standard output: an \<open>Exception\<close> raised by \<open>get_chapter_boundaries\<close> or by
  \<open>split_pdf\<close> is the last line printed, on standard output, and nothing is written to
  standard error.
\<close>

theorem caught_errors_reported:
  "(path_exists fs p \<and> fst (load_course_data B fs p) = Inl e1
      \<and> ((\<exists>m. e1 = FileNotFoundError m) \<or> (\<exists>m. e1 = JSONDecodeError m))
     \<longrightarrow> fst (run_autonomous_agent B F fs S p) = Exit 1
        \<and> (\<exists>pre. last (snd (run_autonomous_agent B F fs S p)) = (Stderr, pre @ str_exn B e1)))
   \<and> (session_reached B fs p td ci \<and> raised_in_session B S td ci = Some e2 \<and> is_Exception e2
     \<longrightarrow> fst (run_autonomous_agent B F fs S p) = Exit 1
        \<and> (\<exists>pre. (Stderr, pre @ str_exn B e2) \<in> set (snd (run_autonomous_agent B F fs S p))))
   \<and> (service_reached W A \<and> fst (get_chapter_boundaries B (service W)) = Inl e3 \<and> is_Exception e3
     \<longrightarrow> fst (pdf_main B W A) = Exit 1
        \<and> last (snd (snd (pdf_main B W A))) = (Stdout, lit ''Error: '' @ str_exn B e3)
        \<and> on_stream Stderr (snd (snd (pdf_main B W A))) = [])
   \<and> (split_reached B W A chapters \<and> fst (split_pdf B (reader W) chapters) = Some e4 \<and> is_Exception e4
     \<longrightarrow> fst (pdf_main B W A) = Exit 1
        \<and> last (snd (snd (pdf_main B W A))) = (Stdout, lit ''Error: '' @ str_exn B e4)
        \<and> on_stream Stderr (snd (snd (pdf_main B W A))) = [])"
  using load_caught [of fs p B e1 F S] session_caught [of B fs p td ci S e2 F]
    service_caught [of W A B e3] split_caught [of B W A chapters e4]
  by blast

text \<open>Four sample runs: a tasks file that is not JSON, a session whose query fails, a
  service that refuses, and a chapter that is too long for the document.\<close>

lemma sample_bad_json_load:
  "path_exists sample_fs_bad_json sample_course"
  "fst (load_course_data sample_lib sample_fs_bad_json sample_course) =
     Inl (JSONDecodeError (lit ''Expecting value: line 1 column 1 (char 0)''))"
  by code_simp+

lemma sample_failed:
  "raised_in_session sample_lib sample_session_failed sample_tasks sample_info =
     Some (OtherException (lit ''process exited''))"
  by (simp add: raised_in_session_def sample_session_failed_def sample_prompt)

lemma sample_refuses:
  "fst (get_chapter_boundaries sample_lib (service (sample_world sample_service_refuses))) =
     Inl (OtherException (lit ''429 quota exceeded''))"
  by code_simp

lemma sample_long:
  "split_reached sample_lib (sample_world sample_service_long) sample_args sample_chapters_long"
  "fst (split_pdf sample_lib (reader (sample_world sample_service_long)) sample_chapters_long) = Some IndexError"
  by code_simp+

theorem caught_errors_reported_witness:
  "(path_exists sample_fs_bad_json sample_course
    \<and> fst (load_course_data sample_lib sample_fs_bad_json sample_course) =
        Inl (JSONDecodeError (lit ''Expecting value: line 1 column 1 (char 0)''))
    \<and> fst (run_autonomous_agent sample_lib sample_floatops sample_fs_bad_json sample_session sample_course) = Exit 1
    \<and> (\<exists>pre. last (snd (run_autonomous_agent sample_lib sample_floatops sample_fs_bad_json sample_session sample_course))
          = (Stderr, pre @ lit ''Expecting value: line 1 column 1 (char 0)'')))
   \<and> (session_reached sample_lib sample_fs sample_course sample_tasks sample_info
    \<and> raised_in_session sample_lib sample_session_failed sample_tasks sample_info =
        Some (OtherException (lit ''process exited''))
    \<and> fst (run_autonomous_agent sample_lib sample_floatops sample_fs sample_session_failed sample_course) = Exit 1
    \<and> (\<exists>pre. (Stderr, pre @ lit ''process exited'')
          \<in> set (snd (run_autonomous_agent sample_lib sample_floatops sample_fs sample_session_failed sample_course))))
   \<and> (service_reached (sample_world sample_service_refuses) sample_args
    \<and> fst (get_chapter_boundaries sample_lib (service (sample_world sample_service_refuses))) =
        Inl (OtherException (lit ''429 quota exceeded''))
    \<and> fst (pdf_main sample_lib (sample_world sample_service_refuses) sample_args) = Exit 1
    \<and> last (snd (snd (pdf_main sample_lib (sample_world sample_service_refuses) sample_args)))
        = (Stdout, lit ''Error: '' @ lit ''429 quota exceeded''))
   \<and> (split_reached sample_lib (sample_world sample_service_long) sample_args sample_chapters_long
    \<and> fst (split_pdf sample_lib (reader (sample_world sample_service_long)) sample_chapters_long) = Some IndexError
    \<and> fst (pdf_main sample_lib (sample_world sample_service_long) sample_args) = Exit 1
    \<and> on_stream Stderr (snd (snd (pdf_main sample_lib (sample_world sample_service_long) sample_args))) = [])"
proof -
  have c1: "fst (run_autonomous_agent sample_lib sample_floatops sample_fs_bad_json sample_session sample_course) = Exit 1
    \<and> (\<exists>pre. last (snd (run_autonomous_agent sample_lib sample_floatops sample_fs_bad_json sample_session sample_course))
          = (Stderr, pre @ lit ''Expecting value: line 1 column 1 (char 0)''))"
    using caught_errors_reported [where fs = sample_fs_bad_json and p = sample_course and B = sample_lib
        and ?e1.0 = "JSONDecodeError (lit ''Expecting value: line 1 column 1 (char 0)'')"
        and F = sample_floatops and S = sample_session, THEN conjunct1]
      sample_bad_json_load
    by simp
  have c2: "fst (run_autonomous_agent sample_lib sample_floatops sample_fs sample_session_failed sample_course) = Exit 1
    \<and> (\<exists>pre. (Stderr, pre @ lit ''process exited'')
          \<in> set (snd (run_autonomous_agent sample_lib sample_floatops sample_fs sample_session_failed sample_course)))"
    using caught_errors_reported [where fs = sample_fs and p = sample_course and B = sample_lib
        and td = sample_tasks and ci = sample_info and S = sample_session_failed
        and ?e2.0 = "OtherException (lit ''process exited'')" and F = sample_floatops,
        THEN conjunct2, THEN conjunct1]
      sample_reached sample_failed
    by simp
  have c3: "fst (pdf_main sample_lib (sample_world sample_service_refuses) sample_args) = Exit 1
    \<and> last (snd (snd (pdf_main sample_lib (sample_world sample_service_refuses) sample_args)))
        = (Stdout, lit ''Error: '' @ lit ''429 quota exceeded'')"
    using caught_errors_reported [where W = "sample_world sample_service_refuses" and A = sample_args
        and B = sample_lib and ?e3.0 = "OtherException (lit ''429 quota exceeded'')",
        THEN conjunct2, THEN conjunct2, THEN conjunct1]
      sample_service_reached sample_refuses
    by simp
  have c4: "fst (pdf_main sample_lib (sample_world sample_service_long) sample_args) = Exit 1
    \<and> on_stream Stderr (snd (snd (pdf_main sample_lib (sample_world sample_service_long) sample_args))) = []"
    using caught_errors_reported [where W = "sample_world sample_service_long" and A = sample_args
        and B = sample_lib and chapters = sample_chapters_long and ?e4.0 = IndexError,
        THEN conjunct2, THEN conjunct2, THEN conjunct2]
      sample_long
    by simp
  show ?thesis
    using c1 c2 c3 c4 sample_bad_json_load sample_reached sample_failed sample_service_reached
      sample_refuses sample_long
    by blast
qed

text \<open>
  Claim C4 as stated fails. The service refuses the request; \<open>main\<close> of the PDF script
  catches the exception, prints \<open>Error: 429 quota exceeded\<close> on standard output and exits
  with code 1: nothing is reported on standard error.
\<close>

theorem caught_errors_reported_counterexample:
  "fst (get_chapter_boundaries sample_lib sample_service_refuses) =
     Inl (OtherException (lit ''429 quota exceeded''))
   \<and> pdf_main sample_lib (sample_world sample_service_refuses) sample_args =
     (Exit 1, [],
      [(Stdout, lit ''Uploading PDF to Gemini...''), (Stdout, lit ''Analyzing PDF structure...''),
       (Stdout, lit ''Error: 429 quota exceeded'')])
   \<and> on_stream Stderr
        [(Stdout, lit ''Uploading PDF to Gemini...''), (Stdout, lit ''Analyzing PDF structure...''),
         (Stdout, lit ''Error: 429 quota exceeded'')] = []"
proof -
  have "fst (get_chapter_boundaries sample_lib sample_service_refuses) =
     Inl (OtherException (lit ''429 quota exceeded''))"
    by code_simp
  moreover have "pdf_main sample_lib (sample_world sample_service_refuses) sample_args =
     (Exit 1, [],
      [(Stdout, lit ''Uploading PDF to Gemini...''), (Stdout, lit ''Analyzing PDF structure...''),
       (Stdout, lit ''Error: 429 quota exceeded'')])"
    by code_simp
  ultimately show ?thesis by simp
qed

end
